theory Spec2Isabelle
  imports Main
begin

section \<open>Python values and errors\<close>

text \<open>
  The values a request body or a keyword argument can hold: \<open>None\<close>, booleans, integers,
  strings, lists, and dictionaries with string keys. A dictionary is an association list
  in insertion order, the order in which \<open>dict.items()\<close> iterates; a lookup is
  \<open>map_of\<close>. Floating-point numbers are left out.
\<close>

datatype pyval =
    PNone
  | PBool bool
  | PInt int
  | PStr string
  | PList "pyval list"
  | PDict "(string \<times> pyval) list"

type_synonym pydict = "(string \<times> pyval) list"

text \<open>
  A pydantic \<open>ValidationError\<close> holds one line per failed check: the location (empty for
  the model as a whole, the field name for a field) and the kind of failure. A
  \<open>ValueError\<close> raised by a model validator becomes the line \<open>value_error msg\<close> at the
  empty location, \<open>msg\<close> being the text the validator raised.
\<close>

datatype err_type =
    missing
  | int_type
  | int_parsing
  | string_type
  | dict_type
  | value_error string

type_synonym line_error = "string list \<times> err_type"

datatype error =
    ValueError string
  | KeyError string
  | ValidationError "line_error list"

section \<open>Models declared with pydantic\<close>

text \<open>
  A class derived from \<open>BaseModel\<close> is the list of its field declarations, in the order
  of the class body. A field has a name, an annotation and a default:
  \<open>Field(...)\<close> or \<open>Field(example=1)\<close> gives no default, so the field is required
  (also under an \<open>Optional[...]\<close> annotation, which only admits \<open>None\<close> as a value);
  \<open>Field(None, ...)\<close> is the default \<open>None\<close>; \<open>default_factory=dict\<close> builds an empty
  dictionary.
\<close>

datatype ftype =
    TInt
  | TStr
  | TDict_str_Any
  | TOptional ftype

datatype fdefault =
    Required
  | Default pyval
  | Default_factory_dict

record field_decl =
  fname :: string
  annotation :: ftype
  default_value :: fdefault

type_synonym model = "field_decl list"

text \<open>
  An instance holds a value for every declared field and, as \<open>model_fields_set\<close>, the
  names of the fields the input supplied (in declaration order).
\<close>

record model_instance =
  field_values :: pydict
  model_fields_set :: "string list"

text \<open>
  No class here sets a strict mode, so an \<open>int\<close> field also reads a string: a decimal
  numeral, after an optional sign, of at most 4300 characters. \<open>decimal_value\<close> is the
  number a string of decimal digits denotes. The further spellings that some versions of
  pydantic read as well (blanks around the numeral, underscores between digits, a
  fraction of zeros) are not modelled.
\<close>

definition decimal_value :: "string \<Rightarrow> nat" where
  "decimal_value s = foldl (\<lambda>a c. 10 * a + (of_char c - 48)) 0 s"

definition is_digits :: "string \<Rightarrow> bool" where
  "is_digits s = (s \<noteq> [] \<and> list_all (\<lambda>c. c \<in> set ''0123456789'') s)"

definition str_as_int :: "string \<Rightarrow> int option" where
  "str_as_int s =
     (if 4300 < length s then None
      else case s of
        [] \<Rightarrow> None
      | c # ds \<Rightarrow>
          if c = CHR ''-'' then (if is_digits ds then Some (- int (decimal_value ds)) else None)
          else if c = CHR ''+'' then (if is_digits ds then Some (int (decimal_value ds)) else None)
          else if is_digits s then Some (int (decimal_value s)) else None)"

text \<open>
  Validation of one value against an annotation, in pydantic's default (lax) mode on the
  values above: an \<open>int\<close> field takes an integer, a boolean as 0 or 1, and a string that
  \<open>str_as_int\<close> reads; a \<open>str\<close> field takes a string only; \<open>Dict[str, Any]\<close> takes a
  dictionary as it is; \<open>Optional[t]\<close> takes \<open>None\<close> and whatever \<open>t\<close> takes.
\<close>

fun validate_type :: "ftype \<Rightarrow> pyval \<Rightarrow> err_type + pyval" where
  "validate_type TInt (PInt n) = Inr (PInt n)"
| "validate_type TInt (PBool b) = Inr (PInt (if b then 1 else 0))"
| "validate_type TInt (PStr s) =
     (case str_as_int s of Some n \<Rightarrow> Inr (PInt n) | None \<Rightarrow> Inl int_parsing)"
| "validate_type TInt _ = Inl int_type"
| "validate_type TStr (PStr s) = Inr (PStr s)"
| "validate_type TStr _ = Inl string_type"
| "validate_type TDict_str_Any (PDict d) = Inr (PDict d)"
| "validate_type TDict_str_Any _ = Inl dict_type"
| "validate_type (TOptional t) PNone = Inr PNone"
| "validate_type (TOptional t) v = validate_type t v"

text \<open>
  The fields are validated in declaration order. A field found in the input is checked
  against its annotation and recorded as set; a field not found takes its default, which
  is not recorded as set, or is reported missing. Keys of the input that name no field
  are ignored (no class here sets \<open>model_config\<close>, and the default is \<open>extra='ignore'\<close>).
  The errors of all fields are collected.
\<close>

record validation_state =
  vs_errors :: "line_error list"
  vs_fields :: pydict
  vs_set :: "string list"

definition get_default :: "fdefault \<Rightarrow> pyval option" where
  "get_default d =
     (case d of Required \<Rightarrow> None | Default v \<Rightarrow> Some v | Default_factory_dict \<Rightarrow> Some (PDict []))"

fun validate_fields :: "model \<Rightarrow> pydict \<Rightarrow> validation_state" where
  "validate_fields [] values =
     \<lparr>vs_errors = [], vs_fields = [], vs_set = []\<rparr>"
| "validate_fields (f # fs) values =
     (let rest = validate_fields fs values in
      case map_of values (fname f) of
        Some v \<Rightarrow>
          (case validate_type (annotation f) v of
             Inl e \<Rightarrow> rest\<lparr>vs_errors := ([fname f], e) # vs_errors rest\<rparr>
           | Inr v' \<Rightarrow> rest\<lparr>vs_fields := (fname f, v') # vs_fields rest,
                            vs_set := fname f # vs_set rest\<rparr>)
      | None \<Rightarrow>
          (case get_default (default_value f) of
             None \<Rightarrow> rest\<lparr>vs_errors := ([fname f], missing) # vs_errors rest\<rparr>
           | Some d \<Rightarrow> rest\<lparr>vs_fields := (fname f, d) # vs_fields rest\<rparr>))"

definition model_validate :: "model \<Rightarrow> pydict \<Rightarrow> error + model_instance" where
  "model_validate m values =
     (let st = validate_fields m values in
      if vs_errors st = []
      then Inr \<lparr>field_values = vs_fields st, model_fields_set = vs_set st\<rparr>
      else Inl (ValidationError (vs_errors st)))"

text \<open>
  A \<open>model_validator(mode="before")\<close> receives the raw input before any field is looked
  at. A \<open>ValueError\<close> it raises ends the validation as a \<open>ValidationError\<close>.
\<close>

definition before_validator ::
  "(pydict \<Rightarrow> error + pydict) \<Rightarrow> (pydict \<Rightarrow> error + model_instance) \<Rightarrow> pydict \<Rightarrow> error + model_instance" where
  "before_validator func inner values =
     (case func values of
        Inl (ValueError msg) \<Rightarrow> Inl (ValidationError [([], value_error msg)])
      | Inl e \<Rightarrow> Inl e
      | Inr values' \<Rightarrow> inner values')"

section \<open>schemas/services.py: the write shapes\<close>

definition ServicesDataPost :: model where
  "ServicesDataPost =
     [\<lparr>fname = ''physical_object_id'', annotation = TInt, default_value = Required\<rparr>,
      \<lparr>fname = ''object_geometry_id'', annotation = TInt, default_value = Required\<rparr>,
      \<lparr>fname = ''service_type_id'', annotation = TInt, default_value = Required\<rparr>,
      \<lparr>fname = ''territory_type_id'', annotation = TOptional TInt, default_value = Default PNone\<rparr>,
      \<lparr>fname = ''name'', annotation = TOptional TStr, default_value = Default PNone\<rparr>,
      \<lparr>fname = ''capacity_real'', annotation = TOptional TInt, default_value = Default PNone\<rparr>,
      \<lparr>fname = ''properties'', annotation = TDict_str_Any, default_value = Default_factory_dict\<rparr>]"

definition ServicesDataPut :: model where
  "ServicesDataPut =
     [\<lparr>fname = ''service_type_id'', annotation = TInt, default_value = Required\<rparr>,
      \<lparr>fname = ''territory_type_id'', annotation = TOptional TInt, default_value = Required\<rparr>,
      \<lparr>fname = ''name'', annotation = TOptional TStr, default_value = Required\<rparr>,
      \<lparr>fname = ''capacity_real'', annotation = TOptional TInt, default_value = Required\<rparr>,
      \<lparr>fname = ''properties'', annotation = TDict_str_Any, default_value = Required\<rparr>]"

definition ServicesDataPatch :: model where
  "ServicesDataPatch =
     [\<lparr>fname = ''service_type_id'', annotation = TOptional TInt, default_value = Default PNone\<rparr>,
      \<lparr>fname = ''territory_type_id'', annotation = TOptional TInt, default_value = Default PNone\<rparr>,
      \<lparr>fname = ''name'', annotation = TOptional TStr, default_value = Default PNone\<rparr>,
      \<lparr>fname = ''capacity_real'', annotation = TOptional TInt, default_value = Default PNone\<rparr>,
      \<lparr>fname = ''properties'', annotation = TOptional TDict_str_Any, default_value = Default PNone\<rparr>]"

text \<open>\<open>check_empty_request\<close>: an empty dictionary is falsy.\<close>

definition check_empty_request :: "pydict \<Rightarrow> error + pydict" where
  "check_empty_request values =
     (if values = [] then Inl (ValueError ''request body cannot be empty'') else Inr values)"

text \<open>\<open>disallow_nulls\<close>: the loop over \<open>values.items()\<close> raises at the first \<open>None\<close>.\<close>

fun disallow_nulls_loop :: "pydict \<Rightarrow> error option" where
  "disallow_nulls_loop [] = None"
| "disallow_nulls_loop ((k, v) # items) =
     (case v of
        PNone \<Rightarrow> Some (ValueError (k @ '' cannot be null''))
      | _ \<Rightarrow> disallow_nulls_loop items)"

definition disallow_nulls :: "pydict \<Rightarrow> error + pydict" where
  "disallow_nulls values =
     (case disallow_nulls_loop values of Some e \<Rightarrow> Inl e | None \<Rightarrow> Inr values)"

text \<open>
  Each before-validator wraps the schema built so far, so the validator defined last is
  the outermost and runs first: \<open>disallow_nulls\<close>, then \<open>check_empty_request\<close>, then the
  fields.
\<close>

definition ServicesDataPatch_validate :: "pydict \<Rightarrow> error + model_instance" where
  "ServicesDataPatch_validate =
     before_validator disallow_nulls
       (before_validator check_empty_request (model_validate ServicesDataPatch))"

section \<open>schemas/services.py: the read shapes\<close>

text \<open>
  Modelled from the spec: the module \<open>dto/services.py\<close> is not among the sources. A
  \<open>ServiceDTO\<close> carries the columns that \<open>from_dto\<close> reads; following the data model of the
  specification, the service type's columns and the timestamps always hold a value, and
  the territory type's columns, the name and the capacity may be \<open>None\<close>.
  \<open>ServiceWithTerritoriesDTO\<close> adds the list of territory rows, each a dictionary.
\<close>

type_synonym datetime = int

record ServiceDTO =
  service_id :: int
  service_type_id :: int
  urban_function_id :: int
  service_type_name :: string
  service_type_capacity_modeled :: int
  service_type_code :: string
  territory_type_id :: "int option"
  territory_type_name :: "string option"
  name :: "string option"
  capacity_real :: "int option"
  properties :: pydict
  created_at :: datetime
  updated_at :: datetime

record ServiceWithTerritoriesDTO = ServiceDTO +
  territories :: "pydict list"

text \<open>
  Modelled from the spec: the modules \<open>schemas/service_types.py\<close> and
  \<open>schemas/territories.py\<close> are not among the sources. \<open>ServiceTypes\<close>, \<open>TerritoryType\<close> and
  \<open>ShortTerritory\<close> have the fields that \<open>from_dto\<close> passes by keyword, typed as in the
  \<open>Field\<close> examples of \<open>ServicesData\<close> and \<open>ServiceWithTerritories\<close> (an identity and a name,
  and the numeric attributes and the code of a service type), all of them required.
\<close>

definition ServiceTypes :: model where
  "ServiceTypes =
     [\<lparr>fname = ''service_type_id'', annotation = TInt, default_value = Required\<rparr>,
      \<lparr>fname = ''urban_function_id'', annotation = TInt, default_value = Required\<rparr>,
      \<lparr>fname = ''name'', annotation = TStr, default_value = Required\<rparr>,
      \<lparr>fname = ''capacity_modeled'', annotation = TInt, default_value = Required\<rparr>,
      \<lparr>fname = ''code'', annotation = TStr, default_value = Required\<rparr>]"

definition TerritoryType :: model where
  "TerritoryType =
     [\<lparr>fname = ''territory_type_id'', annotation = TInt, default_value = Required\<rparr>,
      \<lparr>fname = ''name'', annotation = TStr, default_value = Required\<rparr>]"

definition ShortTerritory :: model where
  "ShortTerritory =
     [\<lparr>fname = ''territory_id'', annotation = TInt, default_value = Required\<rparr>,
      \<lparr>fname = ''name'', annotation = TStr, default_value = Required\<rparr>]"

text \<open>An attribute of a DTO as the Python value handed to a constructor.\<close>

definition py_int :: "int option \<Rightarrow> pyval" where
  "py_int x = (case x of None \<Rightarrow> PNone | Some n \<Rightarrow> PInt n)"

definition py_str :: "string option \<Rightarrow> pyval" where
  "py_str x = (case x of None \<Rightarrow> PNone | Some s \<Rightarrow> PStr s)"

text \<open>
  \<open>ServicesData\<close>: \<open>territory_type\<close> is declared \<open>Optional[TerritoryType]\<close>, the name and the
  capacity \<open>Optional\<close>, every field required.
\<close>

record ServicesData =
  service_id :: int
  service_type :: model_instance
  territory_type :: "model_instance option"
  name :: "string option"
  capacity_real :: "int option"
  properties :: pydict
  created_at :: datetime
  updated_at :: datetime

record ServiceWithTerritories = ServicesData +
  territories :: "model_instance list"

text \<open>
  \<open>ServicesData.from_dto\<close>. The arguments of \<open>cls(...)\<close> are evaluated in order, so the
  \<open>ServiceTypes\<close> constructor runs first and the \<open>TerritoryType\<close> constructor second, on
  whatever the DTO holds; an error of either ends the call. The values then handed to
  \<open>cls\<close> have the declared types, so its own validation passes them on.
\<close>

definition ServiceTypes_of_dto :: "'a ServiceDTO_scheme \<Rightarrow> error + model_instance" where
  "ServiceTypes_of_dto dto =
     model_validate ServiceTypes
       [(''service_type_id'', PInt (ServiceDTO.service_type_id dto)),
        (''urban_function_id'', PInt (ServiceDTO.urban_function_id dto)),
        (''name'', PStr (ServiceDTO.service_type_name dto)),
        (''capacity_modeled'', PInt (ServiceDTO.service_type_capacity_modeled dto)),
        (''code'', PStr (ServiceDTO.service_type_code dto))]"

definition TerritoryType_of_dto :: "'a ServiceDTO_scheme \<Rightarrow> error + model_instance" where
  "TerritoryType_of_dto dto =
     model_validate TerritoryType
       [(''territory_type_id'', py_int (ServiceDTO.territory_type_id dto)),
        (''name'', py_str (ServiceDTO.territory_type_name dto))]"

definition ServicesData_from_dto :: "ServiceDTO \<Rightarrow> error + ServicesData" where
  "ServicesData_from_dto dto =
     (case ServiceTypes_of_dto dto of
        Inl e \<Rightarrow> Inl e
      | Inr st \<Rightarrow>
          (case TerritoryType_of_dto dto of
             Inl e \<Rightarrow> Inl e
           | Inr tt \<Rightarrow>
               Inr \<lparr>service_id = ServiceDTO.service_id dto,
                    service_type = st,
                    territory_type = Some tt,
                    name = ServiceDTO.name dto,
                    capacity_real = ServiceDTO.capacity_real dto,
                    properties = ServiceDTO.properties dto,
                    created_at = ServiceDTO.created_at dto,
                    updated_at = ServiceDTO.updated_at dto\<rparr>))"

text \<open>
  \<open>ServiceWithTerritories.from_dto\<close>. The list comprehension builds one \<open>ShortTerritory\<close> per
  territory row, in order; \<open>territory["territory_id"]\<close> and \<open>territory["name"]\<close> raise
  \<open>KeyError\<close> on a row without the key.
\<close>

fun short_territories :: "pydict list \<Rightarrow> error + model_instance list" where
  "short_territories [] = Inr []"
| "short_territories (territory # rest) =
     (case map_of territory ''territory_id'' of
        None \<Rightarrow> Inl (KeyError ''territory_id'')
      | Some tid \<Rightarrow>
          (case map_of territory ''name'' of
             None \<Rightarrow> Inl (KeyError ''name'')
           | Some nm \<Rightarrow>
               (case model_validate ShortTerritory [(''territory_id'', tid), (''name'', nm)] of
                  Inl e \<Rightarrow> Inl e
                | Inr t \<Rightarrow>
                    (case short_territories rest of
                       Inl e \<Rightarrow> Inl e
                     | Inr ts \<Rightarrow> Inr (t # ts)))))"

definition ServiceWithTerritories_from_dto ::
  "ServiceWithTerritoriesDTO \<Rightarrow> error + ServiceWithTerritories" where
  "ServiceWithTerritories_from_dto dto =
     (case ServiceTypes_of_dto dto of
        Inl e \<Rightarrow> Inl e
      | Inr st \<Rightarrow>
          (case TerritoryType_of_dto dto of
             Inl e \<Rightarrow> Inl e
           | Inr tt \<Rightarrow>
               (case short_territories (ServiceWithTerritoriesDTO.territories dto) of
                  Inl e \<Rightarrow> Inl e
                | Inr ts \<Rightarrow>
                    Inr \<lparr>service_id = ServiceDTO.service_id dto,
                         service_type = st,
                         territory_type = Some tt,
                         name = ServiceDTO.name dto,
                         capacity_real = ServiceDTO.capacity_real dto,
                         properties = ServiceDTO.properties dto,
                         created_at = ServiceDTO.created_at dto,
                         updated_at = ServiceDTO.updated_at dto,
                         territories = ts\<rparr>)))"

section \<open>schemas/indicators.py\<close>

definition Indicators :: model where
  "Indicators =
     [\<lparr>fname = ''indicator_id'', annotation = TInt, default_value = Required\<rparr>,
      \<lparr>fname = ''name_full'', annotation = TStr, default_value = Required\<rparr>,
      \<lparr>fname = ''name_short'', annotation = TStr, default_value = Required\<rparr>,
      \<lparr>fname = ''measurement_unit_id'', annotation = TOptional TInt, default_value = Required\<rparr>,
      \<lparr>fname = ''level'', annotation = TInt, default_value = Required\<rparr>,
      \<lparr>fname = ''list_label'', annotation = TStr, default_value = Required\<rparr>,
      \<lparr>fname = ''parent_id'', annotation = TOptional TInt, default_value = Required\<rparr>]"

definition IndicatorsPost :: model where
  "IndicatorsPost =
     [\<lparr>fname = ''name_full'', annotation = TStr, default_value = Required\<rparr>,
      \<lparr>fname = ''name_short'', annotation = TStr, default_value = Required\<rparr>,
      \<lparr>fname = ''measurement_unit_id'', annotation = TInt, default_value = Required\<rparr>,
      \<lparr>fname = ''level'', annotation = TInt, default_value = Required\<rparr>,
      \<lparr>fname = ''list_label'', annotation = TStr, default_value = Required\<rparr>,
      \<lparr>fname = ''parent_id'', annotation = TInt, default_value = Required\<rparr>]"

section \<open>exceptions/logic/common.py\<close>

record EntityNotFoundById =
  requested_id :: int
  entity :: string

definition EntityNotFoundById_init :: "int \<Rightarrow> string \<Rightarrow> EntityNotFoundById" where
  "EntityNotFoundById_init rid ent = \<lparr>requested_id = rid, entity = ent\<rparr>"

text \<open>
  The f-string formats the identifier as \<open>str\<close> does: the decimal digits, after a minus
  sign for a negative number.
\<close>

fun str_nat :: "nat \<Rightarrow> string" where
  "str_nat n =
     (if n < 10 then [''0123456789'' ! n]
      else str_nat (n div 10) @ [''0123456789'' ! (n mod 10)])"

declare str_nat.simps [simp del]

definition str_int :: "int \<Rightarrow> string" where
  "str_int i = (if i < 0 then ''-'' @ str_nat (nat (- i)) else str_nat (nat i))"

definition EntityNotFoundById_str :: "EntityNotFoundById \<Rightarrow> string" where
  "EntityNotFoundById_str self =
     ''Entity '' @ [CHR 0x27] @ entity self @ [CHR 0x27] @ '' with id=''
       @ str_int (requested_id self) @ '' is not found''"

definition HTTP_404_NOT_FOUND :: int where
  "HTTP_404_NOT_FOUND = 404"

definition get_status_code :: "EntityNotFoundById \<Rightarrow> int" where
  "get_status_code self = HTTP_404_NOT_FOUND"

section \<open>Facts about field validation\<close>

lemma validate_type_TInt_Inr:
  "validate_type TInt v = Inr v' \<Longrightarrow> v \<noteq> PNone \<and> (\<exists>n. v' = PInt n)"
  by (cases v) (auto split: if_splits option.splits)

lemma validate_fields_present:
  "vs_errors (validate_fields m values) = [] \<Longrightarrow> f \<in> set m \<Longrightarrow>
   default_value f = Required \<Longrightarrow> map_of values (fname f) \<noteq> None"
  by (induction m) (auto simp: Let_def get_default_def split: option.splits sum.splits)

lemma validate_fields_checked:
  "vs_errors (validate_fields m values) = [] \<Longrightarrow> f \<in> set m \<Longrightarrow>
   map_of values (fname f) = Some v \<Longrightarrow> \<exists>v'. validate_type (annotation f) v = Inr v'"
  by (induction m) (auto simp: Let_def split: option.splits sum.splits)

lemma validate_fields_set:
  "vs_errors (validate_fields m values) = [] \<Longrightarrow> f \<in> set m \<Longrightarrow>
   map_of values (fname f) = Some v \<Longrightarrow> fname f \<in> set (vs_set (validate_fields m values))"
  by (induction m) (auto simp: Let_def split: option.splits sum.splits)

lemma validate_fields_keys:
  "vs_errors (validate_fields m values) = [] \<Longrightarrow>
   map fst (vs_fields (validate_fields m values)) = map fname m"
  by (induction m) (auto simp: Let_def split: option.splits sum.splits)

lemma validate_fields_value:
  "vs_errors (validate_fields m values) = [] \<Longrightarrow> distinct (map fname m) \<Longrightarrow> f \<in> set m \<Longrightarrow>
   map_of (vs_fields (validate_fields m values)) (fname f) =
     (case map_of values (fname f) of
        Some v \<Rightarrow> (case validate_type (annotation f) v of Inr v' \<Rightarrow> Some v' | Inl e \<Rightarrow> None)
      | None \<Rightarrow> get_default (default_value f))"
proof (induction m)
  case Nil
  then show ?case by simp
next
  case (Cons g m)
  have ok: "vs_errors (validate_fields m values) = []"
    using Cons.prems(1) by (auto simp: Let_def split: option.splits sum.splits)
  show ?case
  proof (cases "f = g")
    case True
    then show ?thesis
      using Cons.prems(1) by (auto simp: Let_def split: option.splits sum.splits)
  next
    case False
    then have mem: "f \<in> set m" using Cons.prems(3) by simp
    then have ne: "fname g \<noteq> fname f" using Cons.prems(2) by auto
    have "map_of (vs_fields (validate_fields (g # m) values)) (fname f) =
          map_of (vs_fields (validate_fields m values)) (fname f)"
      using ne Cons.prems(1) by (auto simp: Let_def split: option.splits sum.splits)
    then show ?thesis
      using Cons.IH [OF ok _ mem] Cons.prems(2) by simp
  qed
qed

lemma model_validate_Inr:
  "model_validate m values = Inr inst \<Longrightarrow>
   vs_errors (validate_fields m values) = [] \<and>
   field_values inst = vs_fields (validate_fields m values) \<and>
   model_fields_set inst = vs_set (validate_fields m values)"
  by (auto simp: model_validate_def Let_def split: if_splits)

lemma validate_fields_no_errors:
  "vs_errors (validate_fields m payload) = [] \<longleftrightarrow>
   (\<forall>f\<in>set m. case map_of payload (fname f) of
                  Some v \<Rightarrow> (\<exists>v'. validate_type (annotation f) v = Inr v')
                | None \<Rightarrow> default_value f \<noteq> Required)"
  by (induction m)
     (auto simp: Let_def get_default_def split: option.splits sum.splits fdefault.splits)

lemma model_validate_accepts:
  "vs_errors (validate_fields m payload) = [] \<Longrightarrow>
   model_validate m payload =
     Inr \<lparr>field_values = vs_fields (validate_fields m payload),
          model_fields_set = vs_set (validate_fields m payload)\<rparr>"
  by (simp add: model_validate_def Let_def)

lemma validate_fields_not_set:
  "map_of payload k = None \<Longrightarrow> k \<notin> set (vs_set (validate_fields m payload))"
  by (induction m) (auto simp: Let_def split: option.splits sum.splits)

text \<open>What \<open>str_as_int\<close> reads, at three strings.\<close>

lemma str_as_int_examples:
  "str_as_int ''120'' = Some 120" "str_as_int ''-7'' = Some (- 7)" "str_as_int ''many'' = None"
  by (simp_all add: str_as_int_def is_digits_def decimal_value_def)

section \<open>Facts about the patch validators\<close>

lemma disallow_nulls_loop_first:
  "\<forall>kv\<in>set pre. snd kv \<noteq> PNone \<Longrightarrow>
   disallow_nulls_loop (pre @ (k, PNone) # post) = Some (ValueError (k @ '' cannot be null''))"
  by (induction pre) (auto split: pyval.splits)

lemma disallow_nulls_loop_None:
  "disallow_nulls_loop payload = None \<longleftrightarrow> (\<forall>kv\<in>set payload. snd kv \<noteq> PNone)"
  by (induction payload) (auto split: pyval.splits)

lemma patch_accepted_fields:
  assumes "ServicesDataPatch_validate payload = Inr inst"
  shows "disallow_nulls_loop payload = None" and "payload \<noteq> []"
    and "model_validate ServicesDataPatch payload = Inr inst"
  using assms
  by (auto simp: ServicesDataPatch_validate_def before_validator_def disallow_nulls_def
      check_empty_request_def split: option.splits if_splits error.splits sum.splits)

section \<open>Facts about the projections\<close>

lemma ServiceTypes_of_dto_ok:
  "ServiceTypes_of_dto dto =
     Inr \<lparr>field_values =
            [(''service_type_id'', PInt (ServiceDTO.service_type_id dto)),
             (''urban_function_id'', PInt (ServiceDTO.urban_function_id dto)),
             (''name'', PStr (ServiceDTO.service_type_name dto)),
             (''capacity_modeled'', PInt (ServiceDTO.service_type_capacity_modeled dto)),
             (''code'', PStr (ServiceDTO.service_type_code dto))],
          model_fields_set =
            [''service_type_id'', ''urban_function_id'', ''name'', ''capacity_modeled'',
             ''code'']\<rparr>"
  by (simp add: ServiceTypes_of_dto_def model_validate_def ServiceTypes_def)

lemma TerritoryType_of_dto_Some:
  "ServiceDTO.territory_type_id dto = Some i \<Longrightarrow> ServiceDTO.territory_type_name dto = Some n \<Longrightarrow>
   TerritoryType_of_dto dto =
     Inr \<lparr>field_values = [(''territory_type_id'', PInt i), (''name'', PStr n)],
          model_fields_set = [''territory_type_id'', ''name'']\<rparr>"
  by (simp add: TerritoryType_of_dto_def model_validate_def TerritoryType_def py_int_def
      py_str_def)

lemma TerritoryType_of_dto_None:
  "ServiceDTO.territory_type_id dto = None \<Longrightarrow> ServiceDTO.territory_type_name dto = None \<Longrightarrow>
   TerritoryType_of_dto dto =
     Inl (ValidationError [([''territory_type_id''], int_type), ([''name''], string_type)])"
  by (simp add: TerritoryType_of_dto_def model_validate_def TerritoryType_def py_int_def
      py_str_def)

text \<open>The projection has no branch that leaves \<open>territory_type\<close> empty.\<close>

lemma from_dto_never_null_territory_type:
  "ServicesData_from_dto dto = Inr r \<Longrightarrow> ServicesData.territory_type r \<noteq> None"
  by (auto simp: ServicesData_from_dto_def split: sum.splits)

lemma from_dto_with_territory_type:
  "ServiceDTO.territory_type_id dto = Some i \<Longrightarrow> ServiceDTO.territory_type_name dto = Some n \<Longrightarrow>
   \<exists>r. ServicesData_from_dto dto = Inr r"
  by (simp add: ServicesData_from_dto_def ServiceTypes_of_dto_ok TerritoryType_of_dto_Some)

lemma short_territories_rows:
  assumes "\<forall>t\<in>set ts. \<exists>i n. map_of t ''territory_id'' = Some (PInt i) \<and>
                             map_of t ''name'' = Some (PStr n)"
  shows "short_territories ts =
           Inr (map (\<lambda>t. \<lparr>field_values =
                            [(''territory_id'', the (map_of t ''territory_id'')),
                             (''name'', the (map_of t ''name''))],
                          model_fields_set = [''territory_id'', ''name'']\<rparr>) ts)"
  using assms
proof (induction ts)
  case Nil
  then show ?case by simp
next
  case (Cons t ts)
  from Cons.prems obtain i n where t: "map_of t ''territory_id'' = Some (PInt i)"
    "map_of t ''name'' = Some (PStr n)" by auto
  have "short_territories ts =
           Inr (map (\<lambda>t. \<lparr>field_values =
                            [(''territory_id'', the (map_of t ''territory_id'')),
                             (''name'', the (map_of t ''name''))],
                          model_fields_set = [''territory_id'', ''name'']\<rparr>) ts)"
    using Cons by simp
  then show ?case
    using t by (simp add: model_validate_def ShortTerritory_def)
qed

lemma TerritoryType_of_dto_Inl:
  "ServiceDTO.territory_type_id dto = None \<or> ServiceDTO.territory_type_name dto = None \<Longrightarrow>
   \<exists>e. TerritoryType_of_dto dto = Inl e"
  by (cases "ServiceDTO.territory_type_id dto"; cases "ServiceDTO.territory_type_name dto")
     (auto simp: TerritoryType_of_dto_def model_validate_def TerritoryType_def py_int_def
       py_str_def)

text \<open>
  What \<open>ServiceWithTerritories.from_dto\<close> returns on a DTO whose territory rows hold an
  integer identifier and a string name: with a territory type, the instance that carries
  every column of the DTO, the two nested objects, and one reference per row in the order
  of the rows; without one, an error.
\<close>

lemma with_territories_projection:
  assumes "\<forall>t\<in>set (ServiceWithTerritoriesDTO.territories dto).
             \<exists>i n. map_of t ''territory_id'' = Some (PInt i) \<and> map_of t ''name'' = Some (PStr n)"
  shows "(\<forall>i n. ServiceDTO.territory_type_id dto = Some i \<and>
                ServiceDTO.territory_type_name dto = Some n \<longrightarrow>
            ServiceWithTerritories_from_dto dto =
              Inr \<lparr>service_id = ServiceDTO.service_id dto,
                   service_type =
                     \<lparr>field_values =
                        [(''service_type_id'', PInt (ServiceDTO.service_type_id dto)),
                         (''urban_function_id'', PInt (ServiceDTO.urban_function_id dto)),
                         (''name'', PStr (ServiceDTO.service_type_name dto)),
                         (''capacity_modeled'',
                            PInt (ServiceDTO.service_type_capacity_modeled dto)),
                         (''code'', PStr (ServiceDTO.service_type_code dto))],
                      model_fields_set =
                        [''service_type_id'', ''urban_function_id'', ''name'',
                         ''capacity_modeled'', ''code'']\<rparr>,
                   territory_type =
                     Some \<lparr>field_values = [(''territory_type_id'', PInt i), (''name'', PStr n)],
                           model_fields_set = [''territory_type_id'', ''name'']\<rparr>,
                   name = ServiceDTO.name dto,
                   capacity_real = ServiceDTO.capacity_real dto,
                   properties = ServiceDTO.properties dto,
                   created_at = ServiceDTO.created_at dto,
                   updated_at = ServiceDTO.updated_at dto,
                   territories =
                     map (\<lambda>t. \<lparr>field_values =
                                  [(''territory_id'', the (map_of t ''territory_id'')),
                                   (''name'', the (map_of t ''name''))],
                                model_fields_set = [''territory_id'', ''name'']\<rparr>)
                       (ServiceWithTerritoriesDTO.territories dto)\<rparr>) \<and>
         (ServiceDTO.territory_type_id dto = None \<or> ServiceDTO.territory_type_name dto = None
            \<longrightarrow> (\<exists>e. ServiceWithTerritories_from_dto dto = Inl e))"
proof -
  note rows = short_territories_rows [OF assms]
  have a: "ServiceWithTerritories_from_dto dto = Inl e" if "TerritoryType_of_dto dto = Inl e" for e
    using that by (simp add: ServiceWithTerritories_from_dto_def ServiceTypes_of_dto_ok)
  show ?thesis
  proof (intro conjI allI impI)
    fix i n
    assume "ServiceDTO.territory_type_id dto = Some i \<and>
            ServiceDTO.territory_type_name dto = Some n"
    then show "ServiceWithTerritories_from_dto dto =
              Inr \<lparr>service_id = ServiceDTO.service_id dto,
                   service_type =
                     \<lparr>field_values =
                        [(''service_type_id'', PInt (ServiceDTO.service_type_id dto)),
                         (''urban_function_id'', PInt (ServiceDTO.urban_function_id dto)),
                         (''name'', PStr (ServiceDTO.service_type_name dto)),
                         (''capacity_modeled'',
                            PInt (ServiceDTO.service_type_capacity_modeled dto)),
                         (''code'', PStr (ServiceDTO.service_type_code dto))],
                      model_fields_set =
                        [''service_type_id'', ''urban_function_id'', ''name'',
                         ''capacity_modeled'', ''code'']\<rparr>,
                   territory_type =
                     Some \<lparr>field_values = [(''territory_type_id'', PInt i), (''name'', PStr n)],
                           model_fields_set = [''territory_type_id'', ''name'']\<rparr>,
                   name = ServiceDTO.name dto,
                   capacity_real = ServiceDTO.capacity_real dto,
                   properties = ServiceDTO.properties dto,
                   created_at = ServiceDTO.created_at dto,
                   updated_at = ServiceDTO.updated_at dto,
                   territories =
                     map (\<lambda>t. \<lparr>field_values =
                                  [(''territory_id'', the (map_of t ''territory_id'')),
                                   (''name'', the (map_of t ''name''))],
                                model_fields_set = [''territory_id'', ''name'']\<rparr>)
                       (ServiceWithTerritoriesDTO.territories dto)\<rparr>"
      by (simp add: ServiceWithTerritories_from_dto_def ServiceTypes_of_dto_ok
          TerritoryType_of_dto_Some rows)
  next
    assume "ServiceDTO.territory_type_id dto = None \<or> ServiceDTO.territory_type_name dto = None"
    from TerritoryType_of_dto_Inl [OF this] obtain e where "TerritoryType_of_dto dto = Inl e" ..
    from a [OF this] show "\<exists>e. ServiceWithTerritories_from_dto dto = Inl e" ..
  qed
qed

text \<open>The projection of a school in two territories.\<close>

lemma with_territories_example:
  "ServiceWithTerritories_from_dto
         \<lparr>ServiceDTO.service_id = 5, service_type_id = 2, urban_function_id = 3,
          service_type_name = ''School'', service_type_capacity_modeled = 300,
          service_type_code = ''1'', territory_type_id = Some 1,
          territory_type_name = Some ''City'', ServiceDTO.name = Some ''School 7'',
          ServiceDTO.capacity_real = None, ServiceDTO.properties = [(''floors'', PInt 3)],
          ServiceDTO.created_at = 1000, ServiceDTO.updated_at = 2000,
          ServiceWithTerritoriesDTO.territories =
            [[(''territory_id'', PInt 1), (''name'', PStr ''Saint Petersburg'')],
             [(''territory_id'', PInt 9), (''name'', PStr ''Petrogradsky'')]]\<rparr> =
     Inr \<lparr>service_id = 5,
          service_type =
            \<lparr>field_values =
               [(''service_type_id'', PInt 2), (''urban_function_id'', PInt 3),
                (''name'', PStr ''School''), (''capacity_modeled'', PInt 300),
                (''code'', PStr ''1'')],
             model_fields_set =
               [''service_type_id'', ''urban_function_id'', ''name'', ''capacity_modeled'',
                ''code'']\<rparr>,
          territory_type =
            Some \<lparr>field_values = [(''territory_type_id'', PInt 1), (''name'', PStr ''City'')],
                  model_fields_set = [''territory_type_id'', ''name'']\<rparr>,
          name = Some ''School 7'', capacity_real = None,
          properties = [(''floors'', PInt 3)], created_at = 1000, updated_at = 2000,
          territories =
            [\<lparr>field_values = [(''territory_id'', PInt 1), (''name'', PStr ''Saint Petersburg'')],
              model_fields_set = [''territory_id'', ''name'']\<rparr>,
             \<lparr>field_values = [(''territory_id'', PInt 9), (''name'', PStr ''Petrogradsky'')],
              model_fields_set = [''territory_id'', ''name'']\<rparr>]\<rparr>"
  using with_territories_projection
    [of "\<lparr>ServiceDTO.service_id = 5, service_type_id = 2, urban_function_id = 3,
          service_type_name = ''School'', service_type_capacity_modeled = 300,
          service_type_code = ''1'', territory_type_id = Some 1,
          territory_type_name = Some ''City'', ServiceDTO.name = Some ''School 7'',
          ServiceDTO.capacity_real = None, ServiceDTO.properties = [(''floors'', PInt 3)],
          ServiceDTO.created_at = 1000, ServiceDTO.updated_at = 2000,
          ServiceWithTerritoriesDTO.territories =
            [[(''territory_id'', PInt 1), (''name'', PStr ''Saint Petersburg'')],
             [(''territory_id'', PInt 9), (''name'', PStr ''Petrogradsky'')]]\<rparr>"]
  by simp

section \<open>Facts about the write shapes\<close>

lemma ServicesDataPatch_fields:
  "f \<in> set ServicesDataPatch \<Longrightarrow>
     f = \<lparr>fname = ''service_type_id'', annotation = TOptional TInt, default_value = Default PNone\<rparr> \<or>
     f = \<lparr>fname = ''territory_type_id'', annotation = TOptional TInt, default_value = Default PNone\<rparr> \<or>
     f = \<lparr>fname = ''name'', annotation = TOptional TStr, default_value = Default PNone\<rparr> \<or>
     f = \<lparr>fname = ''capacity_real'', annotation = TOptional TInt, default_value = Default PNone\<rparr> \<or>
     f = \<lparr>fname = ''properties'', annotation = TOptional TDict_str_Any, default_value = Default PNone\<rparr>"
  by (simp add: ServicesDataPatch_def)

lemma patch_capacity_only_accepted:
  "ServicesDataPatch_validate [(''capacity_real'', PInt 120)] =
     Inr \<lparr>field_values =
            [(''service_type_id'', PNone), (''territory_type_id'', PNone), (''name'', PNone),
             (''capacity_real'', PInt 120), (''properties'', PNone)],
          model_fields_set = [''capacity_real'']\<rparr>"
  by (simp add: ServicesDataPatch_validate_def before_validator_def disallow_nulls_def
      check_empty_request_def model_validate_def ServicesDataPatch_def get_default_def)

lemma distinct_ServicesDataPost: "distinct (map fname ServicesDataPost)"
  by (simp add: ServicesDataPost_def)

lemma post_minimal_accepted:
  "model_validate ServicesDataPost
     [(''physical_object_id'', PInt 1), (''object_geometry_id'', PInt 2),
      (''service_type_id'', PInt 3)] =
   Inr \<lparr>field_values =
          [(''physical_object_id'', PInt 1), (''object_geometry_id'', PInt 2),
           (''service_type_id'', PInt 3), (''territory_type_id'', PNone), (''name'', PNone),
           (''capacity_real'', PNone), (''properties'', PDict [])],
        model_fields_set = [''physical_object_id'', ''object_geometry_id'', ''service_type_id'']\<rparr>"
  by (simp add: model_validate_def ServicesDataPost_def get_default_def)

text \<open>Whatever payload without \<open>properties\<close> the create shape accepts, the instance holds \<open>{}\<close>.\<close>

lemma post_accepted_properties_default:
  assumes "model_validate ServicesDataPost payload = Inr inst"
    and "map_of payload ''properties'' = None"
  shows "map_of (field_values inst) ''properties'' = Some (PDict [])"
proof -
  have mem: "\<lparr>fname = ''properties'', annotation = TDict_str_Any,
              default_value = Default_factory_dict\<rparr> \<in> set ServicesDataPost"
    by (simp add: ServicesDataPost_def)
  have ok: "vs_errors (validate_fields ServicesDataPost payload) = []"
    and fv: "field_values inst = vs_fields (validate_fields ServicesDataPost payload)"
    using model_validate_Inr [OF assms(1)] by simp_all
  show ?thesis
    using validate_fields_value [OF ok distinct_ServicesDataPost mem] assms(2) fv
    by (simp add: get_default_def)
qed

lemma put_five_fields_accepted:
  "model_validate ServicesDataPut
     [(''service_type_id'', PInt 3), (''territory_type_id'', PNone), (''name'', PNone),
      (''capacity_real'', PNone), (''properties'', PDict [])] =
   Inr \<lparr>field_values =
          [(''service_type_id'', PInt 3), (''territory_type_id'', PNone), (''name'', PNone),
           (''capacity_real'', PNone), (''properties'', PDict [])],
        model_fields_set =
          [''service_type_id'', ''territory_type_id'', ''name'', ''capacity_real'',
           ''properties'']\<rparr>"
  by (simp add: model_validate_def ServicesDataPut_def)

section \<open>Facts about the indicator shapes\<close>

lemma distinct_IndicatorsPost: "distinct (map fname IndicatorsPost)"
  by (simp add: IndicatorsPost_def)

text \<open>A required \<open>int\<close> field of an accepted input is present, not \<open>None\<close>, and an integer in the instance.\<close>

lemma required_int_field:
  assumes "model_validate m payload = Inr inst" and "distinct (map fname m)"
    and "\<lparr>fname = k, annotation = TInt, default_value = Required\<rparr> \<in> set m"
  shows "\<exists>v n. map_of payload k = Some v \<and> v \<noteq> PNone \<and>
               map_of (field_values inst) k = Some (PInt n)"
proof -
  have ok: "vs_errors (validate_fields m payload) = []"
    and fv: "field_values inst = vs_fields (validate_fields m payload)"
    using model_validate_Inr [OF assms(1)] by simp_all
  from validate_fields_present [OF ok assms(3)]
  obtain v where v: "map_of payload k = Some v" by auto
  from validate_fields_checked [OF ok assms(3)] v
  obtain v' where v': "validate_type TInt v = Inr v'" by auto
  from validate_type_TInt_Inr [OF v'] obtain n where n: "v \<noteq> PNone" "v' = PInt n" by auto
  have "map_of (field_values inst) k = Some (PInt n)"
    using validate_fields_value [OF ok assms(2) assms(3)] v v' n fv by simp
  then show ?thesis using v n by blast
qed

lemma indicators_post_accepted:
  "model_validate IndicatorsPost
     [(''name_full'', PStr ''Population''), (''name_short'', PStr ''Pop''),
      (''measurement_unit_id'', PInt 1), (''level'', PInt 2), (''list_label'', PStr ''1.1''),
      (''parent_id'', PInt 7)] =
   Inr \<lparr>field_values =
          [(''name_full'', PStr ''Population''), (''name_short'', PStr ''Pop''),
           (''measurement_unit_id'', PInt 1), (''level'', PInt 2),
           (''list_label'', PStr ''1.1''), (''parent_id'', PInt 7)],
        model_fields_set =
          [''name_full'', ''name_short'', ''measurement_unit_id'', ''level'', ''list_label'',
           ''parent_id'']\<rparr>"
  by (simp add: model_validate_def IndicatorsPost_def)

text \<open>
  A root indicator without a unit: the read shape takes it, the create shape refuses both
  fields.
\<close>

lemma indicators_accepts_root:
  "model_validate Indicators
     [(''indicator_id'', PInt 1), (''name_full'', PStr ''Population''),
      (''name_short'', PStr ''Pop''), (''measurement_unit_id'', PNone), (''level'', PInt 1),
      (''list_label'', PStr ''1''), (''parent_id'', PNone)] =
   Inr \<lparr>field_values =
          [(''indicator_id'', PInt 1), (''name_full'', PStr ''Population''),
           (''name_short'', PStr ''Pop''), (''measurement_unit_id'', PNone), (''level'', PInt 1),
           (''list_label'', PStr ''1''), (''parent_id'', PNone)],
        model_fields_set =
          [''indicator_id'', ''name_full'', ''name_short'', ''measurement_unit_id'', ''level'',
           ''list_label'', ''parent_id'']\<rparr>"
  by (simp add: model_validate_def Indicators_def)

lemma indicators_post_rejects_root:
  "model_validate IndicatorsPost
     [(''name_full'', PStr ''Population''), (''name_short'', PStr ''Pop''),
      (''measurement_unit_id'', PNone), (''level'', PInt 1), (''list_label'', PStr ''1''),
      (''parent_id'', PNone)] =
   Inl (ValidationError [([''measurement_unit_id''], int_type), ([''parent_id''], int_type)])"
  by (simp add: model_validate_def IndicatorsPost_def)

section \<open>Facts about the rendering of integers\<close>

lemma digit_char_value: "d < 10 \<Longrightarrow> of_char (''0123456789'' ! d) - 48 = (d::nat)"
proof -
  assume "d < 10"
  then have "d \<in> {0,1,2,3,4,5,6,7,8,9}" by auto
  then show ?thesis by (elim insertE) simp_all
qed

text \<open>\<open>str_nat\<close> prints the decimal numeral of its argument.\<close>

lemma decimal_value_str_nat: "decimal_value (str_nat n) = n"
proof (induction n rule: str_nat.induct)
  case (1 n)
  show ?case
  proof (cases "n < 10")
    case True
    then show ?thesis
      using digit_char_value [of n] by (subst str_nat.simps) (simp add: decimal_value_def)
  next
    case False
    have "decimal_value (str_nat n) =
          10 * decimal_value (str_nat (n div 10)) + (of_char (''0123456789'' ! (n mod 10)) - 48)"
      using False by (subst str_nat.simps) (simp add: decimal_value_def)
    also have "\<dots> = 10 * (n div 10) + n mod 10"
      using "1.IH" [OF False] digit_char_value [of "n mod 10"] by simp
    finally show ?thesis by simp
  qed
qed

section \<open>Properties\<close>

text \<open>
  C1. The projection \<open>ServicesData.from_dto\<close> is to succeed on every \<open>ServiceDTO\<close>, also on
  one whose territory type columns are \<open>None\<close>. It does not: \<open>from_dto\<close> calls the
  \<open>TerritoryType\<close> constructor on whatever the DTO holds, and has no branch that passes
  \<open>None\<close> for the optional field. On every DTO without a territory type the call ends in
  the validation error of that constructor.
\<close>

theorem from_dto_without_territory_type:
  "ServicesData_from_dto
     (dto\<lparr>ServiceDTO.territory_type_id := None, ServiceDTO.territory_type_name := None\<rparr>) =
   Inl (ValidationError [([''territory_type_id''], int_type), ([''name''], string_type)])"
  by (simp add: ServicesData_from_dto_def ServiceTypes_of_dto_ok TerritoryType_of_dto_None)

text \<open>
  C2. Validating a \<open>ServicesDataPatch\<close> against the empty field set fails with the
  validation error that carries the message "request body cannot be empty".
\<close>

theorem patch_empty_rejected:
  "ServicesDataPatch_validate [] =
     Inl (ValidationError [([], value_error ''request body cannot be empty'')])"
  by (simp add: ServicesDataPatch_validate_def before_validator_def disallow_nulls_def
      check_empty_request_def)

text \<open>
  C3, as amended. A payload holding a \<open>None\<close> is rejected, and the message names the
  first key of the payload, in its own order, whose value is \<open>None\<close>: a key is named
  when no key before it holds \<open>None\<close>.
\<close>

theorem patch_null_rejected:
  assumes "\<forall>kv\<in>set pre. snd kv \<noteq> PNone"
  shows "ServicesDataPatch_validate (pre @ (k, PNone) # post) =
           Inl (ValidationError [([], value_error (k @ '' cannot be null''))])"
  using disallow_nulls_loop_first [OF assms]
  by (simp add: ServicesDataPatch_validate_def before_validator_def disallow_nulls_def)

text \<open>The theorem at a payload whose second key is the null one.\<close>

theorem patch_null_rejected_witness:
  "snd (''name'', PStr ''School'') \<noteq> PNone \<and>
   ServicesDataPatch_validate [(''name'', PStr ''School''), (''capacity_real'', PNone)] =
     Inl (ValidationError [([], value_error ''capacity_real cannot be null'')])"
  using patch_null_rejected [of "[(''name'', PStr ''School'')]" "''capacity_real''" "[]"]
  by simp

text \<open>
  C3 as stated fails where two keys are null: \<open>capacity_real\<close> is present and null, and
  the message names \<open>name\<close>, the key the loop meets first.
\<close>

theorem patch_null_names_first_counterexample:
  "map_of [(''name'', PNone), (''capacity_real'', PNone)] ''capacity_real'' = Some PNone \<and>
   ServicesDataPatch_validate [(''name'', PNone), (''capacity_real'', PNone)] =
     Inl (ValidationError [([], value_error ''name cannot be null'')]) \<and>
   ServicesDataPatch_validate [(''name'', PNone), (''capacity_real'', PNone)] \<noteq>
     Inl (ValidationError [([], value_error ''capacity_real cannot be null'')])"
  by (simp add: ServicesDataPatch_validate_def before_validator_def disallow_nulls_def)

text \<open>
  C4, as amended. A payload that supplies exactly one declared field, with a value other
  than \<open>None\<close> that the field's annotation accepts (for an \<open>int\<close> field also a boolean or
  a numeral string), is accepted. In the instance the supplied field holds the validated
  value, every other field holds its declared default \<open>None\<close>, and \<open>model_fields_set\<close> holds
  the supplied field alone: that set, not the absence of a value, tells a field that was
  not supplied.
\<close>

theorem patch_single_field_accepted:
  assumes "f \<in> set ServicesDataPatch" and "v \<noteq> PNone"
    and "validate_type (annotation f) v = Inr v'"
  shows "ServicesDataPatch_validate [(fname f, v)] =
           Inr \<lparr>field_values =
                  map (\<lambda>g. (fname g, if fname g = fname f then v' else PNone)) ServicesDataPatch,
                model_fields_set = [fname f]\<rparr>"
proof -
  have pre: "disallow_nulls [(fname f, v)] = Inr [(fname f, v)]"
    using assms(2) by (cases v) (simp_all add: disallow_nulls_def)
  have chk: "check_empty_request [(fname f, v)] = Inr [(fname f, v)]"
    by (simp add: check_empty_request_def)
  have "model_validate ServicesDataPatch [(fname f, v)] =
           Inr \<lparr>field_values =
                  map (\<lambda>g. (fname g, if fname g = fname f then v' else PNone)) ServicesDataPatch,
                model_fields_set = [fname f]\<rparr>"
    using ServicesDataPatch_fields [OF assms(1)] assms(3)
    by (elim disjE) (simp_all add: model_validate_def ServicesDataPatch_def get_default_def)
  then show ?thesis
    by (simp add: ServicesDataPatch_validate_def before_validator_def pre chk)
qed

text \<open>The theorem at a patch of the capacity alone, sent as a numeral string.\<close>

theorem patch_single_field_accepted_witness:
  "PStr ''120'' \<noteq> PNone \<and>
   ServicesDataPatch_validate [(''capacity_real'', PStr ''120'')] =
     Inr \<lparr>field_values =
            [(''service_type_id'', PNone), (''territory_type_id'', PNone), (''name'', PNone),
             (''capacity_real'', PInt 120), (''properties'', PNone)],
          model_fields_set = [''capacity_real'']\<rparr>"
  using patch_single_field_accepted
    [of "\<lparr>fname = ''capacity_real'', annotation = TOptional TInt,
           default_value = Default PNone\<rparr>"
        "PStr ''120''" "PInt 120"]
  by (simp add: ServicesDataPatch_def str_as_int_def is_digits_def decimal_value_def)

text \<open>
  C4 as stated fails twice. A patch of the name alone is accepted, and the four fields it
  does not supply are in the instance with the value \<open>None\<close>. A patch that supplies the
  name as a number, a non-null value of a declared field, is rejected.
\<close>

theorem patch_unset_defaulted_counterexample:
  "ServicesDataPatch_validate [(''name'', PStr ''School'')] =
     Inr \<lparr>field_values =
            [(''service_type_id'', PNone), (''territory_type_id'', PNone),
             (''name'', PStr ''School''), (''capacity_real'', PNone), (''properties'', PNone)],
          model_fields_set = [''name'']\<rparr> \<and>
   ServicesDataPatch_validate [(''name'', PInt 5)] =
     Inl (ValidationError [([''name''], string_type)])"
  by (simp add: ServicesDataPatch_validate_def before_validator_def disallow_nulls_def
      check_empty_request_def model_validate_def ServicesDataPatch_def get_default_def)

text \<open>
  C5, as amended. The payload of every accepted \<open>ServicesDataPatch\<close> has at least one key
  and no \<open>None\<close> value, and every declared field among its keys is supplied with a value
  other than \<open>None\<close> and recorded in \<open>model_fields_set\<close>. The keys need not be declared
  fields.
\<close>

theorem patch_accepted_not_empty:
  assumes "ServicesDataPatch_validate payload = Inr inst"
  shows "payload \<noteq> [] \<and> (\<forall>kv\<in>set payload. snd kv \<noteq> PNone) \<and>
         (\<forall>f\<in>set ServicesDataPatch. fname f \<in> fst ` set payload \<longrightarrow>
            (\<exists>v. map_of payload (fname f) = Some v \<and> v \<noteq> PNone \<and>
                 fname f \<in> set (model_fields_set inst)))"
proof -
  note acc = patch_accepted_fields [OF assms]
  have nn: "\<forall>kv\<in>set payload. snd kv \<noteq> PNone"
    using acc(1) by (simp add: disallow_nulls_loop_None)
  have ok: "vs_errors (validate_fields ServicesDataPatch payload) = []"
    and fs: "model_fields_set inst = vs_set (validate_fields ServicesDataPatch payload)"
    using model_validate_Inr [OF acc(3)] by simp_all
  have "\<exists>v. map_of payload (fname f) = Some v \<and> v \<noteq> PNone \<and>
            fname f \<in> set (model_fields_set inst)"
    if f: "f \<in> set ServicesDataPatch" and k: "fname f \<in> fst ` set payload" for f
  proof -
    from k obtain v where v: "map_of payload (fname f) = Some v"
      by (cases "map_of payload (fname f)") (auto simp: map_of_eq_None_iff)
    then have "(fname f, v) \<in> set payload" by (rule map_of_SomeD)
    then have "v \<noteq> PNone" using nn by auto
    moreover have "fname f \<in> set (model_fields_set inst)"
      using validate_fields_set [OF ok f v] fs by simp
    ultimately show ?thesis using v by simp
  qed
  then show ?thesis using acc(2) nn by blast
qed

text \<open>The theorem at a patch of the capacity alone.\<close>

theorem patch_accepted_not_empty_witness:
  "[(''capacity_real'', PInt 120)] \<noteq> [] \<and> snd (''capacity_real'', PInt 120) \<noteq> PNone \<and>
   (\<exists>v. map_of [(''capacity_real'', PInt 120)] ''capacity_real'' = Some v \<and> v \<noteq> PNone \<and>
        ''capacity_real'' \<in> set [''capacity_real''])"
  using patch_accepted_not_empty [OF patch_capacity_only_accepted]
  by simp

text \<open>
  C5 as stated fails on a payload of undeclared keys: it is not empty and holds no
  \<open>None\<close>, so both validators pass it, its only key is ignored, and the accepted instance
  has no field set.
\<close>

theorem patch_undeclared_key_counterexample:
  "ServicesDataPatch_validate [(''comment'', PStr ''none'')] =
     Inr \<lparr>field_values =
            [(''service_type_id'', PNone), (''territory_type_id'', PNone),
             (''name'', PNone), (''capacity_real'', PNone), (''properties'', PNone)],
          model_fields_set = []\<rparr>"
  by (simp add: ServicesDataPatch_validate_def before_validator_def disallow_nulls_def
      check_empty_request_def model_validate_def ServicesDataPatch_def get_default_def)

text \<open>
  C6. For every identifier and entity name, \<open>EntityNotFoundById\<close> renders as
  \<open>Entity '<entity>' with id=<id> is not found\<close>, the identifier in decimal, and its status
  code is 404 whatever the error holds.
\<close>

theorem entity_not_found_rendering:
  "EntityNotFoundById_str (EntityNotFoundById_init rid ent) =
     ''Entity '' @ [CHR 0x27] @ ent @ [CHR 0x27] @ '' with id='' @ str_int rid @ '' is not found'' \<and>
   get_status_code (EntityNotFoundById_init rid ent) = 404 \<and>
   EntityNotFoundById_str (EntityNotFoundById_init 42 ''territory'') =
     ''Entity 'territory' with id=42 is not found'' \<and>
   EntityNotFoundById_str (EntityNotFoundById_init (- 7) ''service'') =
     ''Entity 'service' with id=-7 is not found''"
  by (simp add: EntityNotFoundById_str_def EntityNotFoundById_init_def get_status_code_def
      HTTP_404_NOT_FOUND_def str_int_def str_nat.simps)

text \<open>
  C7. The projection is to carry the fields of every well-formed DTO over, the territory
  references element for element. \<open>ServiceWithTerritories.from_dto\<close> makes the same
  unconditional call of the \<open>TerritoryType\<close> constructor as \<open>ServicesData.from_dto\<close>: on
  every DTO without a territory type, whatever its territory rows, it ends in the
  validation error of that constructor and carries nothing over. (On a DTO with a
  territory type and such rows it returns the instance that \<open>with_territories_projection\<close>
  spells out.)
\<close>

theorem with_territories_without_territory_type:
  "ServiceWithTerritories_from_dto
     (dto\<lparr>ServiceDTO.territory_type_id := None, ServiceDTO.territory_type_name := None\<rparr>) =
   Inl (ValidationError [([''territory_type_id''], int_type), ([''name''], string_type)])"
  by (simp add: ServiceWithTerritories_from_dto_def ServiceTypes_of_dto_ok
      TerritoryType_of_dto_None)

text \<open>
  C8. A \<open>ServicesDataPost\<close> payload without the key \<open>properties\<close>, whose three required
  identifiers are present and valid and whose optional fields are valid where present, is
  accepted, and the instance holds the empty dictionary as \<open>properties\<close>, not recorded as
  set.
\<close>

theorem post_properties_default:
  assumes omitted: "map_of payload ''properties'' = None"
    and ids: "\<forall>k\<in>{''physical_object_id'', ''object_geometry_id'', ''service_type_id''}.
                \<exists>v v'. map_of payload k = Some v \<and> validate_type TInt v = Inr v'"
    and opt_ints: "\<forall>k\<in>{''territory_type_id'', ''capacity_real''}. \<forall>v.
                map_of payload k = Some v \<longrightarrow> (\<exists>v'. validate_type (TOptional TInt) v = Inr v')"
    and opt_name: "\<forall>v. map_of payload ''name'' = Some v \<longrightarrow>
                (\<exists>v'. validate_type (TOptional TStr) v = Inr v')"
  shows "\<exists>inst. model_validate ServicesDataPost payload = Inr inst \<and>
           map_of (field_values inst) ''properties'' = Some (PDict []) \<and>
           ''properties'' \<notin> set (model_fields_set inst)"
proof -
  let ?f = "\<lparr>fname = ''properties'', annotation = TDict_str_Any,
              default_value = Default_factory_dict\<rparr>"
  have mem: "?f \<in> set ServicesDataPost" by (simp add: ServicesDataPost_def)
  have ok: "vs_errors (validate_fields ServicesDataPost payload) = []"
    unfolding validate_fields_no_errors
    using omitted ids opt_ints opt_name
    by (auto simp: ServicesDataPost_def split: option.splits)
  have "map_of (vs_fields (validate_fields ServicesDataPost payload)) ''properties'' =
          Some (PDict [])"
    using validate_fields_value [OF ok distinct_ServicesDataPost mem] omitted
    by (simp add: get_default_def)
  moreover have "''properties'' \<notin> set (vs_set (validate_fields ServicesDataPost payload))"
    using omitted by (rule validate_fields_not_set)
  ultimately show ?thesis
    by (simp add: model_validate_accepts [OF ok])
qed

text \<open>
  The theorem at a payload of the three identifiers, one of them a numeral string, and a
  name.
\<close>

theorem post_properties_default_witness:
  "\<exists>inst. model_validate ServicesDataPost
            [(''physical_object_id'', PInt 1), (''object_geometry_id'', PInt 2),
             (''service_type_id'', PStr ''3''), (''name'', PStr ''School 7'')] = Inr inst \<and>
          map_of (field_values inst) ''properties'' = Some (PDict []) \<and>
          ''properties'' \<notin> set (model_fields_set inst)"
  using post_properties_default
    [of "[(''physical_object_id'', PInt 1), (''object_geometry_id'', PInt 2),
          (''service_type_id'', PStr ''3''), (''name'', PStr ''School 7'')]"]
  by (simp add: str_as_int_def is_digits_def decimal_value_def)

text \<open>
  C9, as amended. \<open>ServicesDataPut\<close> declares the fields of \<open>ServicesDataPost\<close> other than
  \<open>physical_object_id\<close> and \<open>object_geometry_id\<close>, in the same order and every one
  required: a payload is accepted only if each of these five fields is present.
\<close>

theorem put_requires_its_fields:
  assumes "model_validate ServicesDataPut payload = Inr inst"
  shows "(\<forall>f\<in>set ServicesDataPut. default_value f = Required \<and> map_of payload (fname f) \<noteq> None) \<and>
         map fname ServicesDataPut =
           filter (\<lambda>k. k \<noteq> ''physical_object_id'' \<and> k \<noteq> ''object_geometry_id'')
             (map fname ServicesDataPost)"
proof -
  have ok: "vs_errors (validate_fields ServicesDataPut payload) = []"
    using model_validate_Inr [OF assms] by simp
  have req: "\<forall>f\<in>set ServicesDataPut. default_value f = Required"
    by (simp add: ServicesDataPut_def)
  have "\<forall>f\<in>set ServicesDataPut. map_of payload (fname f) \<noteq> None"
    using validate_fields_present [OF ok] req by blast
  moreover have "map fname ServicesDataPut =
           filter (\<lambda>k. k \<noteq> ''physical_object_id'' \<and> k \<noteq> ''object_geometry_id'')
             (map fname ServicesDataPost)"
    by (simp add: ServicesDataPut_def ServicesDataPost_def)
  ultimately show ?thesis using req by blast
qed

text \<open>The theorem at a payload of the five fields, three of them \<open>None\<close>.\<close>

theorem put_requires_its_fields_witness:
  "map (\<lambda>f. map_of [(''service_type_id'', PInt 3), (''territory_type_id'', PNone),
                     (''name'', PNone), (''capacity_real'', PNone), (''properties'', PDict [])]
                    (fname f)) ServicesDataPut =
     [Some (PInt 3), Some PNone, Some PNone, Some PNone, Some (PDict [])] \<and>
   map fname ServicesDataPut =
     [''service_type_id'', ''territory_type_id'', ''name'', ''capacity_real'', ''properties'']"
  using put_requires_its_fields [OF put_five_fields_accepted]
  by (simp add: ServicesDataPut_def)

text \<open>
  C9 as stated fails on the two keys of the create shape that the replace shape does not
  declare: a payload without \<open>physical_object_id\<close> is accepted.
\<close>

theorem put_without_create_keys_counterexample:
  "''physical_object_id'' \<in> set (map fname ServicesDataPost) \<and>
   ''physical_object_id'' \<notin> set (map fname ServicesDataPut) \<and>
   map_of [(''service_type_id'', PInt 3), (''territory_type_id'', PNone), (''name'', PNone),
           (''capacity_real'', PNone), (''properties'', PDict [])] ''physical_object_id'' = None \<and>
   model_validate ServicesDataPut
     [(''service_type_id'', PInt 3), (''territory_type_id'', PNone), (''name'', PNone),
      (''capacity_real'', PNone), (''properties'', PDict [])] =
   Inr \<lparr>field_values =
          [(''service_type_id'', PInt 3), (''territory_type_id'', PNone), (''name'', PNone),
           (''capacity_real'', PNone), (''properties'', PDict [])],
        model_fields_set =
          [''service_type_id'', ''territory_type_id'', ''name'', ''capacity_real'',
           ''properties'']\<rparr>"
  by (simp add: model_validate_def ServicesDataPut_def ServicesDataPost_def)

text \<open>
  C10. Every payload that \<open>IndicatorsPost\<close> accepts holds \<open>parent_id\<close> and
  \<open>measurement_unit_id\<close> with a value other than \<open>None\<close>, and the instance holds an integer
  for each, although \<open>Indicators\<close> declares both \<open>Optional[int]\<close>: the create shape cannot
  express an indicator without a parent or without a unit.
\<close>

theorem indicators_post_requires_parent:
  assumes "model_validate IndicatorsPost payload = Inr inst"
  shows "(\<exists>v n. map_of payload ''parent_id'' = Some v \<and> v \<noteq> PNone \<and>
                map_of (field_values inst) ''parent_id'' = Some (PInt n)) \<and>
         (\<exists>v n. map_of payload ''measurement_unit_id'' = Some v \<and> v \<noteq> PNone \<and>
                map_of (field_values inst) ''measurement_unit_id'' = Some (PInt n)) \<and>
         (\<forall>f\<in>set Indicators.
            fname f = ''parent_id'' \<or> fname f = ''measurement_unit_id'' \<longrightarrow>
            annotation f = TOptional TInt)"
proof -
  have a: "\<exists>v n. map_of payload ''parent_id'' = Some v \<and> v \<noteq> PNone \<and>
                map_of (field_values inst) ''parent_id'' = Some (PInt n)"
    by (rule required_int_field [OF assms distinct_IndicatorsPost])
       (simp add: IndicatorsPost_def)
  have b: "\<exists>v n. map_of payload ''measurement_unit_id'' = Some v \<and> v \<noteq> PNone \<and>
                map_of (field_values inst) ''measurement_unit_id'' = Some (PInt n)"
    by (rule required_int_field [OF assms distinct_IndicatorsPost])
       (simp add: IndicatorsPost_def)
  have c: "\<forall>f\<in>set Indicators.
            fname f = ''parent_id'' \<or> fname f = ''measurement_unit_id'' \<longrightarrow>
            annotation f = TOptional TInt"
    by (simp add: Indicators_def)
  from a b c show ?thesis by blast
qed

text \<open>The theorem at an indicator of the second level.\<close>

theorem indicators_post_requires_parent_witness:
  "\<exists>v n. map_of [(''name_full'', PStr ''Population''), (''name_short'', PStr ''Pop''),
      (''measurement_unit_id'', PInt 1), (''level'', PInt 2), (''list_label'', PStr ''1.1''),
      (''parent_id'', PInt 7)] ''parent_id'' = Some v \<and> v \<noteq> PNone \<and> PInt 7 = PInt n"
  using indicators_post_requires_parent [OF indicators_post_accepted]
  by simp

end
